theory Spec2Isabelle
  imports Complex_Main "HOL-Library.Sublist"
begin

section \<open>Second-order perturbation energies: a model of calculate\_E2.py\<close>

text \<open>
  The script has two computational parts: \<open>loadMatrices\<close>, which re-expresses the Fock
  and the density matrix in the basis of localized orbitals, and \<open>doE2Analysis\<close>, which
  scans all ordered pairs of orbitals and tabulates the donor-acceptor interactions.
  Both are translated here function by function, with the names of the source.
\<close>

subsection \<open>Values of type float64\<close>

text \<open>
  The matrices are numpy arrays of float64. A value is a finite number, an infinity or
  NaN. Finite arithmetic is exact here (binary rounding and overflow are left out); the
  special values follow IEEE 754, which numpy applies to scalars: dividing by zero yields
  an infinity or NaN and raises nothing, and every comparison with NaN is false. The two
  zeros are identified; a quotient by zero takes its sign from the dividend.
\<close>

datatype float64 = Fin real | PInf | NInf | NaN

definition inf_of_sign :: "real \<Rightarrow> float64" where
  "inf_of_sign s = (if 0 < s then PInf else if s < 0 then NInf else NaN)"

fun sign_of :: "float64 \<Rightarrow> real" where
  "sign_of (Fin a) = sgn a"
| "sign_of PInf = 1"
| "sign_of NInf = - 1"
| "sign_of NaN = 0"

fun fsub :: "float64 \<Rightarrow> float64 \<Rightarrow> float64" where
  "fsub NaN y = NaN"
| "fsub x NaN = NaN"
| "fsub (Fin a) (Fin b) = Fin (a - b)"
| "fsub PInf PInf = NaN"
| "fsub NInf NInf = NaN"
| "fsub PInf y = PInf"
| "fsub NInf y = NInf"
| "fsub x PInf = NInf"
| "fsub x NInf = PInf"

fun fmul :: "float64 \<Rightarrow> float64 \<Rightarrow> float64" where
  "fmul NaN y = NaN"
| "fmul x NaN = NaN"
| "fmul (Fin a) (Fin b) = Fin (a * b)"
| "fmul x y = inf_of_sign (sign_of x * sign_of y)"

fun fdiv :: "float64 \<Rightarrow> float64 \<Rightarrow> float64" where
  "fdiv NaN y = NaN"
| "fdiv x NaN = NaN"
| "fdiv (Fin a) (Fin b) = (if b = 0 then inf_of_sign (sgn a) else Fin (a / b))"
| "fdiv (Fin a) y = Fin 0"
| "fdiv x (Fin b) = inf_of_sign (sign_of x * (if b < 0 then - 1 else 1))"
| "fdiv x y = NaN"

fun flt :: "float64 \<Rightarrow> float64 \<Rightarrow> bool" where
  "flt NaN y = False"
| "flt x NaN = False"
| "flt (Fin a) (Fin b) = (a < b)"
| "flt PInf y = False"
| "flt x NInf = False"
| "flt NInf y = True"
| "flt x PInf = True"

definition fgt :: "float64 \<Rightarrow> float64 \<Rightarrow> bool" where
  "fgt x y = flt y x"

definition feq :: "float64 \<Rightarrow> float64 \<Rightarrow> bool" where
  "feq x y = (x \<noteq> NaN \<and> x = y)"

definition fle :: "float64 \<Rightarrow> float64 \<Rightarrow> bool" where
  "fle x y = (flt x y \<or> feq x y)"

text \<open>
  \<open>round(x, k)\<close> on a float64 scales by \<open>10 ^ k\<close>, rounds to the nearest integer with
  ties to the even one, and scales back; infinities and NaN pass through.
\<close>

definition rint :: "real \<Rightarrow> int" where
  "rint x =
     (let f = \<lfloor>x\<rfloor>; d = x - of_int f
      in if d < 1 / 2 then f else if 1 / 2 < d then f + 1
         else if even f then f else f + 1)"

definition fround :: "float64 \<Rightarrow> nat \<Rightarrow> float64" where
  "fround x k = (case x of Fin a \<Rightarrow> Fin (of_int (rint (a * 10 ^ k)) / 10 ^ k) | _ \<Rightarrow> x)"

subsection \<open>Exceptions, arrays and loops\<close>

text \<open>
  An exception ends the computation: a result is \<open>Inl\<close> of the error or \<open>Inr\<close> of the
  value. A two-dimensional array is the list of its rows; \<open>M[i, j]\<close> and \<open>xs[i]\<close> raise
  IndexError out of range (the indices of the loops are never negative).
\<close>

datatype error = IndexError | ValueError | LinAlgError

definition bindE :: "error + 'a \<Rightarrow> ('a \<Rightarrow> error + 'b) \<Rightarrow> error + 'b" where
  "bindE m f = (case m of Inl e \<Rightarrow> Inl e | Inr x \<Rightarrow> f x)"

definition at1 :: "'a list \<Rightarrow> nat \<Rightarrow> error + 'a" where
  "at1 xs i = (if i < length xs then Inr (xs ! i) else Inl IndexError)"

definition at2 :: "'a list list \<Rightarrow> nat \<Rightarrow> nat \<Rightarrow> error + 'a" where
  "at2 M i j = bindE (at1 M i) (\<lambda>row. at1 row j)"

fun for_loop :: "nat list \<Rightarrow> (nat \<Rightarrow> 's \<Rightarrow> error + 's) \<Rightarrow> 's \<Rightarrow> error + 's" where
  "for_loop [] body s = Inr s"
| "for_loop (i # rest) body s = bindE (body i s) (for_loop rest body)"

text \<open>\<open>str(n)\<close> for a natural number: its decimal digits.\<close>

definition digit :: "nat \<Rightarrow> char" where
  "digit d = ''0123456789'' ! d"

fun str_nat :: "nat \<Rightarrow> string" where
  "str_nat n = (if n < 10 then [digit n] else str_nat (n div 10) @ [digit (n mod 10)])"

declare str_nat.simps [simp del]

subsection \<open>doE2Analysis\<close>

text \<open>
  A row of the table is a list of cells, strings or numbers. The variables that the
  function initialises before the loops and that live across iterations are the state:
  the two names, \<open>qCT\<close>, \<open>E2\<close>, the row under construction and the table. The other
  locals are assigned in every iteration before they are read. \<open>result.append(interaction)\<close>
  stores the list object, and the next statement binds \<open>interaction\<close> to a fresh list,
  so a stored row is never changed afterwards.
\<close>

datatype cell = Str string | Num float64

record state =
  ii_Name :: string
  jj_Name :: string
  qCT :: float64
  E2 :: float64
  interaction :: "cell list"
  result :: "cell list list"

definition titles :: "cell list" where
  "titles = [Str ''Donor orbital'', Str ''Acceptor orbital'', Str ''Donor occupancy'',
     Str ''Acceptor occupancy'', Str ''Charge transfer (e)'', Str ''E2 energy (kcal/mol)'']"

definition lowest_donor_occ :: float64 where
  "lowest_donor_occ = Fin 1"

definition highest_accpt_occ :: float64 where
  "highest_accpt_occ = Fin 1"

text \<open>Lines 102 to 104: the names are read only when a list of names was given.\<close>

definition set_names :: "string list option \<Rightarrow> nat \<Rightarrow> nat \<Rightarrow> state \<Rightarrow> error + state" where
  "set_names orbital_names i j s =
     (case orbital_names of
        None \<Rightarrow> Inr s
      | Some ns \<Rightarrow>
          bindE (at1 ns i) (\<lambda>a.
          bindE (at1 ns j) (\<lambda>b.
          Inr (s\<lparr>ii_Name := a, jj_Name := b\<rparr>))))"

text \<open>Lines 111 to 121: the test of the occupancies, the formulas and the threshold.\<close>

definition donor_acceptor ::
  "float64 list list \<Rightarrow> float64 list list \<Rightarrow> float64 \<Rightarrow> nat \<Rightarrow> nat \<Rightarrow>
   float64 \<Rightarrow> float64 \<Rightarrow> float64 \<Rightarrow> float64 \<Rightarrow> state \<Rightarrow> error + state" where
  "donor_acceptor Fock_matrix D_matrix qCT_threshold i j Eii Ejj Dii Djj s =
     (if fgt Dii lowest_donor_occ \<and> flt Djj highest_accpt_occ \<and> flt Djj Dii then
        bindE (at2 Fock_matrix i j) (\<lambda>Eij.
        let qCT1 = fmul (Fin 2) (let q = fdiv Eij (fsub Eii Ejj) in fmul q q);
            s1 = s\<lparr>E2 := fmul (fmul qCT1 (fsub Ejj Eii)) (Fin (627509 / 1000))\<rparr>
        in
        bindE (at2 D_matrix i j) (\<lambda>Dij.
        let s2 = s1\<lparr>qCT := fdiv (fmul Dij Dij) Dii\<rparr> in
        if fgt (qCT s2) qCT_threshold then
          let s3 = s2\<lparr>interaction := interaction s2 @ [Num (fround (qCT s2) 4)]\<rparr>;
              s4 = s3\<lparr>interaction := interaction s3 @ [Num (fround (E2 s3) 2)]\<rparr>
          in Inr (s4\<lparr>result := result s4 @ [interaction s4]\<rparr>)
        else Inr s2))
      else Inr s)"

text \<open>Lines 94 to 122: the body of the inner loop.\<close>

definition body ::
  "float64 list list \<Rightarrow> float64 list list \<Rightarrow> string list option \<Rightarrow> float64 \<Rightarrow>
   nat \<Rightarrow> nat \<Rightarrow> state \<Rightarrow> error + state" where
  "body Fock_matrix D_matrix orbital_names qCT_threshold i j s =
     (if \<not> i = j then
        bindE (at2 Fock_matrix i i) (\<lambda>Eii.
        bindE (at2 Fock_matrix j j) (\<lambda>Ejj.
        bindE (at2 D_matrix i i) (\<lambda>Dii.
        bindE (at2 D_matrix j j) (\<lambda>Djj.
        bindE (set_names orbital_names i j s) (\<lambda>s1.
        let s2 = s1\<lparr>interaction := interaction s1 @ [Str (ii_Name s1 @ '' ('' @ str_nat (i + 1) @ '')'')]\<rparr>;
            s3 = s2\<lparr>interaction := interaction s2 @ [Str (jj_Name s2 @ '' ('' @ str_nat (j + 1) @ '')'')]\<rparr>;
            s4 = s3\<lparr>interaction := interaction s3 @ [Num (fround Dii 4)]\<rparr>;
            s5 = s4\<lparr>interaction := interaction s4 @ [Num (fround Djj 4)]\<rparr>
        in
        bindE (donor_acceptor Fock_matrix D_matrix qCT_threshold i j Eii Ejj Dii Djj s5) (\<lambda>s6.
        Inr (s6\<lparr>interaction := []\<rparr>)))))))
      else Inr s)"

definition init_state :: state where
  "init_state = \<lparr>ii_Name = ''unknown'', jj_Name = ''unknown'', qCT = Fin (- 1), E2 = Fin (- 1),
     interaction = [], result = [titles]\<rparr>"

definition doE2Analysis ::
  "float64 list list \<Rightarrow> float64 list list \<Rightarrow> string list option \<Rightarrow> float64 \<Rightarrow> float64 \<Rightarrow>
   error + cell list list" where
  "doE2Analysis Fock_matrix D_matrix orbital_names qCT_threshold E_threshold =
     (let n = length Fock_matrix in
      bindE (for_loop [0..<n] (\<lambda>i. for_loop [0..<n]
               (body Fock_matrix D_matrix orbital_names qCT_threshold i)) init_state)
        (\<lambda>s. Inr (result s)))"

subsection \<open>loadMatrices\<close>

text \<open>
  Lines 55 to 68 read the four matrices and the names from files; the model starts from
  the arrays they return, with finite entries, on which the arithmetic is exact.
  \<open>A.T\<close> is the transpose and \<open>A @ B\<close> the matrix product, which raises ValueError
  when the shapes do not fit. \<open>np.linalg.inv\<close> is a routine of the numerical library and
  not part of the script: it is the parameter \<open>linalg_inv\<close>, which returns a matrix or
  raises.
\<close>

definition nrows :: "'a list list \<Rightarrow> nat" where
  "nrows A = length A"

definition ncols :: "'a list list \<Rightarrow> nat" where
  "ncols A = (case A of [] \<Rightarrow> 0 | r # _ \<Rightarrow> length r)"

definition mat_T :: "'a list list \<Rightarrow> 'a list list" where
  "mat_T A = map (\<lambda>j. map (\<lambda>i. A ! i ! j) [0..<nrows A]) [0..<ncols A]"

definition mat_mul :: "real list list \<Rightarrow> real list list \<Rightarrow> real list list" where
  "mat_mul A B =
     map (\<lambda>i. map (\<lambda>j. sum_list (map (\<lambda>k. A ! i ! k * B ! k ! j) [0..<ncols A])) [0..<ncols B])
       [0..<nrows A]"

definition matmul :: "real list list \<Rightarrow> real list list \<Rightarrow> error + real list list" where
  "matmul A B = (if ncols A = nrows B then Inr (mat_mul A B) else Inl ValueError)"

definition loadMatrices ::
  "(real list list \<Rightarrow> error + real list list) \<Rightarrow>
   real list list \<Rightarrow> real list list \<Rightarrow> real list list \<Rightarrow> real list list \<Rightarrow> string list \<Rightarrow>
   error + real list list \<times> real list list \<times> string list" where
  "loadMatrices linalg_inv Fock_nao sds_nao cplo_2_lho lho_2_nao orb_names =
     bindE (linalg_inv lho_2_nao) (\<lambda>inv_lho_2_nao.
     bindE (linalg_inv cplo_2_lho) (\<lambda>inv_cplo_2_lho.
     bindE (matmul inv_lho_2_nao inv_cplo_2_lho) (\<lambda>nao_2_cplo.
     bindE (matmul (mat_T nao_2_cplo) sds_nao) (\<lambda>t1.
     bindE (matmul t1 nao_2_cplo) (\<lambda>sds_cplo.
     bindE (matmul (mat_T nao_2_cplo) Fock_nao) (\<lambda>t2.
     bindE (matmul t2 nao_2_cplo) (\<lambda>Fock_cplo.
     Inr (Fock_cplo, sds_cplo, orb_names))))))))"

subsection \<open>The table in closed form\<close>

text \<open>
  The inputs the analysis is meant for: both matrices are square of the size of the Fock
  matrix, and a list of names, when given, has a name for every orbital.
\<close>

definition is_mat :: "nat \<Rightarrow> 'a list list \<Rightarrow> bool" where
  "is_mat n M = (length M = n \<and> list_all (\<lambda>row. length row = n) M)"

definition well_shaped :: "float64 list list \<Rightarrow> float64 list list \<Rightarrow> string list option \<Rightarrow> bool" where
  "well_shaped F D names =
     (is_mat (length F) F \<and> is_mat (length F) D \<and>
      (case names of None \<Rightarrow> True | Some ns \<Rightarrow> length F \<le> length ns))"

text \<open>
  What the description of the analysis says about one ordered pair \<open>(i, j)\<close>: the
  rendering of an orbital, the test for a donor and an acceptor, the two formulas, the
  filter and the row; and the table as the rows of the passing pairs in row-major order.
\<close>

definition spec_label :: "string list option \<Rightarrow> nat \<Rightarrow> string" where
  "spec_label names i =
     (case names of None \<Rightarrow> ''unknown'' | Some ns \<Rightarrow> ns ! i) @ '' ('' @ str_nat (i + 1) @ '')''"

definition spec_candidate :: "float64 list list \<Rightarrow> nat \<Rightarrow> nat \<Rightarrow> bool" where
  "spec_candidate D i j =
     (fgt (D ! i ! i) (Fin 1) \<and> flt (D ! j ! j) (Fin 1) \<and> flt (D ! j ! j) (D ! i ! i))"

definition spec_qCT :: "float64 list list \<Rightarrow> nat \<Rightarrow> nat \<Rightarrow> float64" where
  "spec_qCT D i j = fdiv (fmul (D ! i ! j) (D ! i ! j)) (D ! i ! i)"

definition spec_E2 :: "float64 list list \<Rightarrow> nat \<Rightarrow> nat \<Rightarrow> float64" where
  "spec_E2 F i j =
     (let qCT_raw = fmul (Fin 2) (let q = fdiv (F ! i ! j) (fsub (F ! i ! i) (F ! j ! j)) in fmul q q)
      in fmul (fmul qCT_raw (fsub (F ! j ! j) (F ! i ! i))) (Fin (627509 / 1000)))"

definition spec_emits :: "float64 list list \<Rightarrow> float64 \<Rightarrow> nat \<Rightarrow> nat \<Rightarrow> bool" where
  "spec_emits D thr i j = (i \<noteq> j \<and> spec_candidate D i j \<and> fgt (spec_qCT D i j) thr)"

definition spec_record ::
  "float64 list list \<Rightarrow> float64 list list \<Rightarrow> string list option \<Rightarrow> nat \<Rightarrow> nat \<Rightarrow> cell list" where
  "spec_record F D names i j =
     [Str (spec_label names i), Str (spec_label names j),
      Num (fround (D ! i ! i) 4), Num (fround (D ! j ! j) 4),
      Num (fround (spec_qCT D i j) 4), Num (fround (spec_E2 F i j) 2)]"

definition pairs :: "nat \<Rightarrow> (nat \<times> nat) list" where
  "pairs n = concat (map (\<lambda>i. map (\<lambda>j. (i, j)) [0..<n]) [0..<n])"

definition spec_table ::
  "float64 list list \<Rightarrow> float64 list list \<Rightarrow> string list option \<Rightarrow> float64 \<Rightarrow> cell list list" where
  "spec_table F D names thr =
     map (\<lambda>(i, j). spec_record F D names i j)
       (filter (\<lambda>(i, j). spec_emits D thr i j) (pairs (length F)))"




definition scenario_Fock :: "float64 list list" where
  "scenario_Fock = [[Fin (- 1 / 2), Fin (2 / 100)], [Fin (2 / 100), Fin (- 3 / 10)]]"

definition scenario_D :: "float64 list list" where
  "scenario_D = [[Fin (198 / 100), Fin (1 / 10)], [Fin (1 / 10), Fin (2 / 100)]]"

definition scenario_names :: "string list" where
  "scenario_names = [''LP(A)'', ''BD*(B)'']"

definition degenerate_Fock :: "float64 list list" where
  "degenerate_Fock = [[Fin (- 1 / 2), Fin (2 / 100)], [Fin (2 / 100), Fin (- 1 / 2)]]"

definition three_Fock :: "float64 list list" where
  "three_Fock = [[Fin (- 1), Fin 0, Fin (1 / 10)],
                 [Fin 0, Fin (- 1 / 2), Fin (1 / 10)],
                 [Fin (1 / 10), Fin (1 / 10), Fin 0]]"

definition three_D :: "float64 list list" where
  "three_D = [[Fin 2, Fin 0, Fin 1],
              [Fin 0, Fin (3 / 2), Fin 1],
              [Fin 1, Fin 1, Fin (1 / 2)]]"





text \<open>Auxiliary predicates of the proofs.\<close>

definition names_inv :: "string list option \<Rightarrow> state \<Rightarrow> bool" where
  "names_inv names s = (names = None \<longrightarrow> ii_Name s = ''unknown'' \<and> jj_Name s = ''unknown'')"


definition six_columns :: "state \<Rightarrow> bool" where
  "six_columns s = (interaction s = [] \<and> result s \<noteq> [] \<and> hd (result s) = titles \<and>
     list_all (\<lambda>r. length r = 6) (result s))"

definition threshold_rel :: "state \<Rightarrow> state \<Rightarrow> bool" where
  "threshold_rel s1 s2 = (s2 = s1\<lparr>result := result s2\<rparr> \<and> subseq (result s2) (result s1))"

definition result_rel :: "error + state \<Rightarrow> error + state \<Rightarrow> bool" where
  "result_rel r1 r2 =
     (case (r1, r2) of
        (Inr s1, Inr s2) \<Rightarrow> threshold_rel s1 s2
      | (Inl e1, Inl e2) \<Rightarrow> e1 = e2
      | _ \<Rightarrow> False)"


section \<open>Properties of the model\<close>

subsection \<open>Array access and one iteration\<close>

lemma at1_in: "i < length xs \<Longrightarrow> at1 xs i = Inr (xs ! i)"
  by (simp add: at1_def)

lemma at2_in: "is_mat n M \<Longrightarrow> i < n \<Longrightarrow> j < n \<Longrightarrow> at2 M i j = Inr (M ! i ! j)"
  by (auto simp: at2_def at1_def bindE_def is_mat_def list_all_length)

lemma bindE_Inr [simp]: "bindE (Inr x) f = f x"
  by (simp add: bindE_def)

lemma bindE_Inl [simp]: "bindE (Inl e) f = Inl e"
  by (simp add: bindE_def)

lemma set_names_ok:
  assumes "case names of None \<Rightarrow> True | Some ns \<Rightarrow> n \<le> length ns" "i < n" "j < n" "names_inv names s"
  shows "\<exists>s1. set_names names i j s = Inr s1 \<and> interaction s1 = interaction s \<and> result s1 = result s
     \<and> names_inv names s1
     \<and> ii_Name s1 @ '' ('' @ str_nat (i + 1) @ '')'' = spec_label names i
     \<and> jj_Name s1 @ '' ('' @ str_nat (j + 1) @ '')'' = spec_label names j"
  using assms by (cases names) (auto simp: set_names_def at1_in spec_label_def names_inv_def)

lemma body_ok:
  assumes ws: "well_shaped F D names" and i: "i < length F" and j: "j < length F"
    and s: "interaction s = []" "names_inv names s"
  shows "\<exists>s'. body F D names thr i j s = Inr s' \<and> interaction s' = [] \<and> names_inv names s'
     \<and> result s' = result s @ (if spec_emits D thr i j then [spec_record F D names i j] else [])"
proof (cases "i = j")
  case True
  then show ?thesis using s by (simp add: body_def spec_emits_def)
next
  case False
  from ws have F: "is_mat (length F) F" and D: "is_mat (length F) D"
    and N: "case names of None \<Rightarrow> True | Some ns \<Rightarrow> length F \<le> length ns"
    by (simp_all add: well_shaped_def)
  from set_names_ok[OF N i j s(2)] obtain s1 where s1: "set_names names i j s = Inr s1"
    "interaction s1 = interaction s" "result s1 = result s" "names_inv names s1"
    "ii_Name s1 @ '' ('' @ str_nat (i + 1) @ '')'' = spec_label names i"
    "jj_Name s1 @ '' ('' @ str_nat (j + 1) @ '')'' = spec_label names j"
    by blast
  show ?thesis
    using False s s1
    by (simp add: body_def donor_acceptor_def at2_in[OF F] at2_in[OF D] i j Let_def
        spec_emits_def spec_candidate_def spec_record_def spec_qCT_def spec_E2_def
        lowest_donor_occ_def highest_accpt_occ_def names_inv_def)
qed


subsection \<open>The loops\<close>

lemma for_loop_append:
  assumes step: "\<And>i s. i \<in> set xs \<Longrightarrow> I s \<Longrightarrow>
      \<exists>s'. b i s = Inr s' \<and> I s' \<and> result s' = result s @ g i"
    and "I s"
  shows "\<exists>s'. for_loop xs b s = Inr s' \<and> I s' \<and> result s' = result s @ concat (map g xs)"
  using assms
proof (induction xs arbitrary: s)
  case Nil
  then show ?case by simp
next
  case (Cons x xs)
  from Cons.prems(1)[of x s] Cons.prems(2) obtain s1 where
    s1: "b x s = Inr s1" "I s1" "result s1 = result s @ g x" by auto
  from Cons.IH[of s1] Cons.prems(1) s1(2) obtain s2 where
    s2: "for_loop xs b s1 = Inr s2" "I s2" "result s2 = result s1 @ concat (map g xs)"
    by (metis list.set_intros(2))
  show ?case using s1 s2 by simp
qed

lemma concat_filter_product:
  "concat (map (\<lambda>i. concat (map (\<lambda>j. if P i j then [r i j] else []) ys)) xs) =
   map (\<lambda>(i, j). r i j) (filter (\<lambda>(i, j). P i j) (List.product xs ys))"
proof (induction xs)
  case Nil
  show ?case by simp
next
  case (Cons x xs)
  have inner: "concat (map (\<lambda>j. if P x j then [r x j] else []) ys) =
      map (\<lambda>(i, j). r i j) (filter (\<lambda>(i, j). P i j) (map (Pair x) ys))"
    by (induction ys) simp_all
  show ?case using Cons.IH by (simp add: inner)
qed

lemma doE2Analysis_closed:
  assumes ws: "well_shaped F D names"
  shows "doE2Analysis F D names thr e = Inr (titles # spec_table F D names thr)"
proof -
  let ?I = "\<lambda>s. interaction s = [] \<and> names_inv names s"
  let ?n = "length F"
  let ?g = "\<lambda>i j. if spec_emits D thr i j then [spec_record F D names i j] else []"
  have inner: "\<exists>s'. for_loop [0..<?n] (body F D names thr i) s = Inr s' \<and> ?I s' \<and>
      result s' = result s @ concat (map (?g i) [0..<?n])" if "i \<in> set [0..<?n]" "?I s" for i s
  proof (rule for_loop_append[where I = ?I])
    show "?I s" by (rule that)
  next
    fix j s0 assume "j \<in> set [0..<?n]" "?I s0"
    with that(1) body_ok[OF ws, of i j s0 thr]
    show "\<exists>s'. body F D names thr i j s0 = Inr s' \<and> ?I s' \<and> result s' = result s0 @ ?g i j"
      by simp
  qed
  have "?I init_state" by (simp add: init_state_def names_inv_def)
  from for_loop_append[where I = ?I and b = "\<lambda>i. for_loop [0..<?n] (body F D names thr i)"
      and g = "\<lambda>i. concat (map (?g i) [0..<?n])", OF inner this]
  obtain s' where "for_loop [0..<?n] (\<lambda>i. for_loop [0..<?n] (body F D names thr i)) init_state = Inr s'"
    "result s' = result init_state @ concat (map (\<lambda>i. concat (map (?g i) [0..<?n])) [0..<?n])"
    by blast
  then show ?thesis
    by (simp add: doE2Analysis_def Let_def init_state_def spec_table_def pairs_def
        concat_filter_product product_concat_map)
qed


subsection \<open>The rendering of an orbital determines its index\<close>









subsection \<open>What holds of every run that returns\<close>

lemma for_loop_invariant:
  assumes step: "\<And>i s s'. I s \<Longrightarrow> b i s = Inr s' \<Longrightarrow> I s'"
    and "I s" and "for_loop xs b s = Inr s'"
  shows "I s'"
  using assms(2,3)
proof (induction xs arbitrary: s)
  case Nil
  then show ?case by simp
next
  case (Cons x xs)
  from Cons.prems(2) obtain s1 where s1: "b x s = Inr s1" "for_loop xs b s1 = Inr s'"
    by (auto simp: bindE_def split: sum.splits)
  from step[OF Cons.prems(1) s1(1)] have "I s1" .
  from Cons.IH[OF this s1(2)] show ?case .
qed

lemma body_six_columns:
  assumes "six_columns s" and "body F D names thr i j s = Inr s'"
  shows "six_columns s'"
  using assms
  by (auto simp: body_def donor_acceptor_def set_names_def six_columns_def bindE_def Let_def
      split: sum.splits if_splits option.splits)

lemma doE2Analysis_six_columns:
  assumes "doE2Analysis F D names thr e = Inr out"
  shows "out \<noteq> [] \<and> hd out = titles \<and> list_all (\<lambda>r. length r = 6) out"
proof -
  let ?n = "length F"
  from assms obtain s' where
    run: "for_loop [0..<?n] (\<lambda>i. for_loop [0..<?n] (body F D names thr i)) init_state = Inr s'"
    and out: "out = result s'"
    by (auto simp: doE2Analysis_def Let_def bindE_def split: sum.splits)
  have inner: "six_columns t'" if "six_columns t" "for_loop [0..<?n] (body F D names thr i) t = Inr t'"
    for i t t'
    by (rule for_loop_invariant[where I = six_columns and b = "body F D names thr i", OF _ that])
       (rule body_six_columns)
  have "six_columns init_state"
    by (simp add: six_columns_def init_state_def titles_def)
  from for_loop_invariant[where I = six_columns, OF inner this run]
  show ?thesis by (simp add: six_columns_def out)
qed

lemma doE2Analysis_small:
  assumes "length F \<le> 1"
  shows "doE2Analysis F D names thr e = Inr [titles]"
proof -
  from assms have "length F = 0 \<or> length F = 1" by arith
  then show ?thesis
    by (auto simp: doE2Analysis_def body_def init_state_def)
qed

subsection \<open>Two runs that differ in the threshold\<close>

lemma flt_fle_trans: "fle t1 t2 \<Longrightarrow> flt t2 q \<Longrightarrow> flt t1 q"
  by (cases t1; cases t2; cases q) (auto simp: fle_def feq_def)

lemma subseq_snoc_right: "subseq xs ys \<Longrightarrow> subseq xs (ys @ [x])"
  by (rule subseq_rev_drop_many)

lemma body_rel:
  assumes "fle t1 t2" and "threshold_rel s1 s2"
  shows "result_rel (body F D names t1 i j s1) (body F D names t2 i j s2)"
proof -
  have thr: "fgt q t2 \<Longrightarrow> fgt q t1" for q
    using assms(1) by (simp add: fgt_def flt_fle_trans)
  obtain a b c d e r1 where s1: "s1 = \<lparr>ii_Name = a, jj_Name = b, qCT = c, E2 = d, interaction = e, result = r1\<rparr>"
    by (cases s1) auto
  from assms(2) obtain r2 where s2: "s2 = \<lparr>ii_Name = a, jj_Name = b, qCT = c, E2 = d, interaction = e, result = r2\<rparr>"
    and sub: "subseq r2 r1"
    by (cases s2) (auto simp: threshold_rel_def s1)
  show ?thesis
    using thr sub
    by (auto simp: body_def donor_acceptor_def set_names_def result_rel_def threshold_rel_def
        bindE_def Let_def s1 s2 subseq_snoc_right split: sum.splits option.splits)
qed

lemma result_rel_Inl: "result_rel (Inl e) r \<longleftrightarrow> r = Inl e"
  by (cases r) (auto simp: result_rel_def)

lemma result_rel_Inr: "result_rel (Inr a) r \<longleftrightarrow> (\<exists>b. r = Inr b \<and> threshold_rel a b)"
  by (cases r) (auto simp: result_rel_def)

lemma for_loop_rel:
  assumes step: "\<And>i s1 s2. threshold_rel s1 s2 \<Longrightarrow> result_rel (b1 i s1) (b2 i s2)"
    and "threshold_rel s1 s2"
  shows "result_rel (for_loop xs b1 s1) (for_loop xs b2 s2)"
  using assms(2)
proof (induction xs arbitrary: s1 s2)
  case Nil
  then show ?case by (simp add: result_rel_Inr)
next
  case (Cons x xs)
  from step[OF Cons.prems] have r: "result_rel (b1 x s1) (b2 x s2)" .
  show ?case
  proof (cases "b1 x s1")
    case (Inl e)
    with r have "b2 x s2 = Inl e" by (simp add: result_rel_Inl)
    with Inl show ?thesis by (simp add: result_rel_Inl)
  next
    case (Inr u1)
    with r obtain u2 where u2: "b2 x s2 = Inr u2" "threshold_rel u1 u2"
      by (auto simp: result_rel_Inr)
    from Cons.IH[OF u2(2)] Inr u2(1) show ?thesis by simp
  qed
qed

lemma doE2Analysis_rel:
  assumes "fle t1 t2"
  shows "case (doE2Analysis F D names t1 e1, doE2Analysis F D names t2 e2) of
           (Inr out1, Inr out2) \<Rightarrow> subseq out2 out1
         | (Inl x1, Inl x2) \<Rightarrow> x1 = x2
         | _ \<Rightarrow> False"
proof -
  let ?n = "length F"
  let ?run = "\<lambda>t. for_loop [0..<?n] (\<lambda>i. for_loop [0..<?n] (body F D names t i)) init_state"
  have inner: "result_rel (for_loop [0..<?n] (body F D names t1 i) s1)
      (for_loop [0..<?n] (body F D names t2 i) s2)" if "threshold_rel s1 s2" for i s1 s2
    by (rule for_loop_rel[OF body_rel[OF assms] that])
  have "threshold_rel init_state init_state"
    by (simp add: threshold_rel_def)
  from for_loop_rel[where ?b1.0 = "\<lambda>i. for_loop [0..<?n] (body F D names t1 i)"
      and ?b2.0 = "\<lambda>i. for_loop [0..<?n] (body F D names t2 i)" and xs = "[0..<?n]", OF inner this]
  have rel: "result_rel (?run t1) (?run t2)" .
  show ?thesis
  proof (cases "?run t1")
    case (Inl e)
    with rel have "?run t2 = Inl e" by (simp add: result_rel_Inl)
    with Inl show ?thesis by (simp add: doE2Analysis_def)
  next
    case (Inr u1)
    with rel obtain u2 where u2: "?run t2 = Inr u2" "threshold_rel u1 u2"
      by (auto simp: result_rel_Inr)
    with Inr show ?thesis by (simp add: doE2Analysis_def threshold_rel_def)
  qed
qed


subsection \<open>The rows of one pair\<close>

lemma pairs_product: "pairs n = List.product [0..<n] [0..<n]"
  by (simp add: pairs_def product_concat_map)

lemma pairs_nth: "i < n \<Longrightarrow> j < n \<Longrightarrow> pairs n ! (i * n + j) = (i, j)"
proof -
  assume i: "i < n" and j: "j < n"
  have "i * n + j < n * n"
  proof -
    have "i * n + j < i * n + n" using j by simp
    also have "\<dots> = (i + 1) * n" by simp
    also have "\<dots> \<le> n * n" using i by (intro mult_le_mono1) simp
    finally show ?thesis .
  qed
  then show ?thesis using i j by (simp add: pairs_product product_nth)
qed





subsection \<open>Equal orbital energies\<close>


subsection \<open>Matrix algebra\<close>




















subsection \<open>The examples\<close>

lemma upt_2: "[0..<2] = [0, 1]"
  by (simp add: upt_rec)

lemmas scenario_defs = scenario_Fock_def scenario_D_def scenario_names_def degenerate_Fock_def

lemma scenario_well_shaped: "well_shaped scenario_Fock scenario_D (Some scenario_names)"
  by (simp add: well_shaped_def is_mat_def scenario_defs)

lemma scenario_labels:
  "spec_label (Some scenario_names) 0 = ''LP(A) (1)''"
  "spec_label (Some scenario_names) 1 = ''BD*(B) (2)''"
  "spec_label (Some scenario_names) (Suc 0) = ''BD*(B) (2)''"
  by (simp_all add: spec_label_def scenario_defs str_nat.simps digit_def)


lemma upt_3: "[0..<3] = [0, 1, 2]"
  by (simp add: upt_rec)

lemma pairs_2: "pairs 2 = [(0, 0), (0, 1), (1, 0), (1, 1)]"
  by (simp add: pairs_def upt_2)

lemma scenario_length: "length scenario_Fock = 2"
  by (simp add: scenario_Fock_def)

lemma scenario_run_low:
  "doE2Analysis scenario_Fock scenario_D (Some scenario_names) (Fin (1 / 1000)) e =
     Inr [titles, [Str ''LP(A) (1)'', Str ''BD*(B) (2)'', Num (Fin (198 / 100)), Num (Fin (2 / 100)),
                   Num (Fin (51 / 10000)), Num (Fin (251 / 100))]]"
proof -
  have "doE2Analysis scenario_Fock scenario_D (Some scenario_names) (Fin (1 / 1000)) e =
      Inr (titles # map (\<lambda>(i, j). spec_record scenario_Fock scenario_D (Some scenario_names) i j)
             (filter (\<lambda>(i, j). spec_emits scenario_D (Fin (1 / 1000)) i j) (pairs 2)))"
    using doE2Analysis_closed[OF scenario_well_shaped, of "Fin (1 / 1000)" e]
    by (simp add: spec_table_def scenario_length)
  also have "filter (\<lambda>(i, j). spec_emits scenario_D (Fin (1 / 1000)) i j) (pairs 2) = [(0, 1)]"
    by (simp add: pairs_2 spec_emits_def spec_candidate_def spec_qCT_def scenario_D_def fgt_def)
  also have "map (\<lambda>(i, j). spec_record scenario_Fock scenario_D (Some scenario_names) i j) [(0, 1)] =
      [[Str ''LP(A) (1)'', Str ''BD*(B) (2)'', Num (Fin (198 / 100)), Num (Fin (2 / 100)),
        Num (Fin (51 / 10000)), Num (Fin (251 / 100))]]"
    by (simp add: spec_record_def scenario_labels spec_qCT_def spec_E2_def
        scenario_D_def scenario_Fock_def fround_def rint_def Let_def)
  finally show ?thesis .
qed

lemma scenario_run_high:
  "doE2Analysis scenario_Fock scenario_D (Some scenario_names) (Fin (1 / 100)) e = Inr [titles]"
proof -
  have "doE2Analysis scenario_Fock scenario_D (Some scenario_names) (Fin (1 / 100)) e =
      Inr (titles # map (\<lambda>(i, j). spec_record scenario_Fock scenario_D (Some scenario_names) i j)
             (filter (\<lambda>(i, j). spec_emits scenario_D (Fin (1 / 100)) i j) (pairs 2)))"
    using doE2Analysis_closed[OF scenario_well_shaped, of "Fin (1 / 100)" e]
    by (simp add: spec_table_def scenario_length)
  also have "filter (\<lambda>(i, j). spec_emits scenario_D (Fin (1 / 100)) i j) (pairs 2) = []"
    by (simp add: pairs_2 spec_emits_def spec_candidate_def spec_qCT_def scenario_D_def fgt_def)
  finally show ?thesis by simp
qed








subsection \<open>When the library raises\<close>

text \<open>
  The script has no test of its own for a singular matrix and no handler around the two
  inversions: it raises exactly when the library routine does, with the same exception,
  and then returns nothing. Whether the routine raises on a given singular matrix is
  decided by its floating-point factorisation, which is outside this model.
\<close>

lemma loadMatrices_raises:
  assumes "linalg_inv lho_2_nao = Inl err \<or>
      (\<exists>Y. linalg_inv lho_2_nao = Inr Y \<and> linalg_inv cplo_2_lho = Inl err)"
  shows "loadMatrices linalg_inv Fock_nao sds_nao cplo_2_lho lho_2_nao orb_names = Inl err"
  using assms by (auto simp: loadMatrices_def)

section \<open>The claims about doE2Analysis\<close>






text \<open>
  C4. The parameter \<open>E_threshold\<close> has no effect: for the same matrices, names and
  charge-transfer threshold, any two values of \<open>E_threshold\<close> give the same result, be
  it a table or an exception.
\<close>

theorem C4_E_threshold_unused:
  "doE2Analysis Fock_matrix D_matrix orbital_names qCT_threshold t1 =
   doE2Analysis Fock_matrix D_matrix orbital_names qCT_threshold t2"
  by (simp add: doE2Analysis_def)




text \<open>
  C6. The rows follow the header in the order of the double loop: the table is the list
  of the passing pairs, in the order in which \<open>pairs\<close> enumerates all ordered pairs, each
  mapped to its row; and \<open>pairs\<close> is the row-major enumeration, the pair \<open>(i, j)\<close> standing
  at position \<open>i * N + j\<close>.
\<close>

theorem C6_row_major_order:
  assumes "well_shaped F D names"
  shows "doE2Analysis F D names thr e =
           Inr (titles # map (\<lambda>(i, j). spec_record F D names i j)
                  (filter (\<lambda>(i, j). spec_emits D thr i j) (pairs (length F)))) \<and>
         length (pairs (length F)) = length F * length F \<and>
         (\<forall>i < length F. \<forall>j < length F. pairs (length F) ! (i * length F + j) = (i, j))"
proof -
  have "length (pairs (length F)) = length F * length F"
    by (simp add: pairs_product)
  moreover have "\<forall>i < length F. \<forall>j < length F. pairs (length F) ! (i * length F + j) = (i, j)"
    by (simp add: pairs_nth)
  ultimately show ?thesis
    using doE2Analysis_closed[OF assms, of thr e] by (simp add: spec_table_def)
qed

theorem C6_row_major_order_witness:
  "well_shaped three_Fock three_D None \<and>
   pairs 3 = [(0, 0), (0, 1), (0, 2), (1, 0), (1, 1), (1, 2), (2, 0), (2, 1), (2, 2)] \<and>
   doE2Analysis three_Fock three_D None (Fin (1 / 100)) (Fin (1 / 10)) =
     Inr [titles,
          [Str ''unknown (1)'', Str ''unknown (3)'', Num (Fin 2), Num (Fin (1 / 2)),
           Num (Fin (1 / 2)), Num (Fin (1255 / 100))],
          [Str ''unknown (2)'', Str ''unknown (3)'', Num (Fin (3 / 2)), Num (Fin (1 / 2)),
           Num (Fin (6667 / 10000)), Num (Fin (251 / 10))]]"
proof -
  have ws: "well_shaped three_Fock three_D None"
    by (simp add: well_shaped_def is_mat_def three_Fock_def three_D_def)
  have p: "pairs 3 = [(0, 0), (0, 1), (0, 2), (1, 0), (1, 1), (1, 2), (2, 0), (2, 1), (2, 2)]"
    by (simp add: pairs_def upt_3)
  have len: "length three_Fock = 3" by (simp add: three_Fock_def)
  from C6_row_major_order[OF ws, of "Fin (1 / 100)" "Fin (1 / 10)"]
  have "doE2Analysis three_Fock three_D None (Fin (1 / 100)) (Fin (1 / 10)) =
      Inr (titles # map (\<lambda>(i, j). spec_record three_Fock three_D None i j)
             (filter (\<lambda>(i, j). spec_emits three_D (Fin (1 / 100)) i j) (pairs 3)))"
    by (simp add: len)
  also have "filter (\<lambda>(i, j). spec_emits three_D (Fin (1 / 100)) i j) (pairs 3) = [(0, 2), (1, 2)]"
    by (simp add: p spec_emits_def spec_candidate_def spec_qCT_def three_D_def fgt_def)
  also have "map (\<lambda>(i, j). spec_record three_Fock three_D None i j) [(0, 2), (1, 2)] =
      [[Str ''unknown (1)'', Str ''unknown (3)'', Num (Fin 2), Num (Fin (1 / 2)),
           Num (Fin (1 / 2)), Num (Fin (1255 / 100))],
       [Str ''unknown (2)'', Str ''unknown (3)'', Num (Fin (3 / 2)), Num (Fin (1 / 2)),
           Num (Fin (6667 / 10000)), Num (Fin (251 / 10))]]"
    by (simp add: spec_record_def spec_label_def spec_qCT_def spec_E2_def three_D_def three_Fock_def
        str_nat.simps digit_def fround_def rint_def Let_def)
  finally show ?thesis using ws p by simp
qed

text \<open>
  C7. Raising the charge-transfer threshold only removes rows. For thresholds
  \<open>t1 \<le> t2\<close> the two runs either both return, and then they have the same header and
  the rows for \<open>t2\<close> are a subsequence of the rows for \<open>t1\<close>, or both raise the same
  exception. No assumption on the shape of the inputs is needed.
\<close>

theorem C7_qCT_threshold_monotone:
  assumes "fle t1 t2"
  shows "case (doE2Analysis F D names t1 e, doE2Analysis F D names t2 e) of
           (Inr out1, Inr out2) \<Rightarrow> hd out2 = hd out1 \<and> subseq (tl out2) (tl out1)
         | (Inl x1, Inl x2) \<Rightarrow> x1 = x2
         | _ \<Rightarrow> False"
proof (cases "doE2Analysis F D names t1 e")
  case (Inl x1)
  with doE2Analysis_rel[OF assms, of F D names e e] show ?thesis
    by (auto split: sum.splits)
next
  case (Inr out1)
  with doE2Analysis_rel[OF assms, of F D names e e]
  obtain out2 where out2: "doE2Analysis F D names t2 e = Inr out2" and sub: "subseq out2 out1"
    by (auto split: sum.splits)
  from doE2Analysis_six_columns[OF Inr] obtain r1 where r1: "out1 = titles # r1"
    by (cases out1) auto
  from doE2Analysis_six_columns[OF out2] obtain r2 where r2: "out2 = titles # r2"
    by (cases out2) auto
  from sub have "subseq r2 r1" by (simp add: r1 r2)
  then show ?thesis by (simp add: Inr out2 r1 r2)
qed


theorem C7_qCT_threshold_monotone_witness:
  "fle (Fin (1 / 1000)) (Fin (1 / 100)) \<and>
   (\<exists>out1 out2.
      doE2Analysis scenario_Fock scenario_D (Some scenario_names) (Fin (1 / 1000)) (Fin (1 / 10)) = Inr out1 \<and>
      doE2Analysis scenario_Fock scenario_D (Some scenario_names) (Fin (1 / 100)) (Fin (1 / 10)) = Inr out2 \<and>
      length out1 = 2 \<and> length out2 = 1 \<and> hd out2 = hd out1 \<and> subseq (tl out2) (tl out1))"
proof -
  have h: "fle (Fin (1 / 1000)) (Fin (1 / 100))" by (simp add: fle_def)
  from C7_qCT_threshold_monotone[OF h, of scenario_Fock scenario_D "Some scenario_names" "Fin (1 / 10)"]
  show ?thesis
    using h by (simp add: scenario_run_low scenario_run_high)
qed

text \<open>
  C10. Whenever the function returns, the first element of the result is the header with
  its six fixed names and every later element has exactly six cells. On well-shaped
  inputs it does return. When no pair passes, and in particular when there is at most
  one orbital, the result is the header alone, and with at most one orbital no exception
  is raised whatever the other arguments are.
\<close>

theorem C10_header_and_six_fields:
  "(\<forall>out. doE2Analysis F D names thr e = Inr out \<longrightarrow>
      out \<noteq> [] \<and>
      hd out = [Str ''Donor orbital'', Str ''Acceptor orbital'', Str ''Donor occupancy'',
                Str ''Acceptor occupancy'', Str ''Charge transfer (e)'', Str ''E2 energy (kcal/mol)''] \<and>
      list_all (\<lambda>r. length r = 6) (tl out)) \<and>
   (well_shaped F D names \<longrightarrow> (\<exists>out. doE2Analysis F D names thr e = Inr out)) \<and>
   (well_shaped F D names \<and> list_all (\<lambda>(i, j). \<not> spec_emits D thr i j) (pairs (length F)) \<longrightarrow>
      doE2Analysis F D names thr e = Inr [titles]) \<and>
   (length F \<le> 1 \<longrightarrow> doE2Analysis F D names thr e = Inr [titles])"
proof (intro conjI allI impI)
  fix out assume r: "doE2Analysis F D names thr e = Inr out"
  from doE2Analysis_six_columns[OF r]
  have ne: "out \<noteq> []" and hd: "hd out = titles" and six: "list_all (\<lambda>r. length r = 6) out"
    by simp_all
  show "out \<noteq> []" by (rule ne)
  show "hd out = [Str ''Donor orbital'', Str ''Acceptor orbital'', Str ''Donor occupancy'',
                Str ''Acceptor occupancy'', Str ''Charge transfer (e)'', Str ''E2 energy (kcal/mol)'']"
    using hd by (simp add: titles_def)
  show "list_all (\<lambda>r. length r = 6) (tl out)"
    using ne six by (cases out) simp_all
next
  assume "well_shaped F D names"
  then show "\<exists>out. doE2Analysis F D names thr e = Inr out"
    by (simp add: doE2Analysis_closed)
next
  assume a: "well_shaped F D names \<and> list_all (\<lambda>(i, j). \<not> spec_emits D thr i j) (pairs (length F))"
  then have "filter (\<lambda>(i, j). spec_emits D thr i j) (pairs (length F)) = []"
    by (auto simp: filter_empty_conv list_all_iff)
  then show "doE2Analysis F D names thr e = Inr [titles]"
    using a by (simp add: doE2Analysis_closed spec_table_def)
next
  assume "length F \<le> 1"
  then show "doE2Analysis F D names thr e = Inr [titles]"
    by (rule doE2Analysis_small)
qed

theorem C10_header_and_six_fields_witness:
  "length [[Fin 0]] \<le> 1 \<and>
   doE2Analysis [[Fin 0]] [[Fin 2]] None (Fin (1 / 100)) (Fin (1 / 10)) =
     Inr [[Str ''Donor orbital'', Str ''Acceptor orbital'', Str ''Donor occupancy'',
           Str ''Acceptor occupancy'', Str ''Charge transfer (e)'', Str ''E2 energy (kcal/mol)'']] \<and>
   doE2Analysis [] [] None (Fin (1 / 100)) (Fin (1 / 10)) = Inr [titles] \<and>
   well_shaped scenario_Fock scenario_D (Some scenario_names) \<and>
   list_all (\<lambda>(i, j). \<not> spec_emits scenario_D (Fin (1 / 100)) i j) (pairs (length scenario_Fock)) \<and>
   doE2Analysis scenario_Fock scenario_D (Some scenario_names) (Fin (1 / 100)) (Fin (1 / 10)) =
     Inr [titles] \<and>
   (\<exists>out. doE2Analysis scenario_Fock scenario_D (Some scenario_names) (Fin (1 / 1000)) (Fin (1 / 10)) =
      Inr out \<and> length out = 2 \<and> hd out = titles \<and> list_all (\<lambda>r. length r = 6) (tl out))"
proof -
  have len: "length scenario_Fock = 2" by (simp add: scenario_Fock_def)
  have none: "list_all (\<lambda>(i, j). \<not> spec_emits scenario_D (Fin (1 / 100)) i j) (pairs (length scenario_Fock))"
    by (simp add: len pairs_2 spec_emits_def spec_candidate_def spec_qCT_def scenario_D_def fgt_def)
  from C10_header_and_six_fields[of "[[Fin 0]]" "[[Fin 2]]" None "Fin (1 / 100)" "Fin (1 / 10)"]
    C10_header_and_six_fields[of "[]" "[]" None "Fin (1 / 100)" "Fin (1 / 10)"]
    C10_header_and_six_fields[of scenario_Fock scenario_D "Some scenario_names" "Fin (1 / 100)" "Fin (1 / 10)"]
    C10_header_and_six_fields[of scenario_Fock scenario_D "Some scenario_names" "Fin (1 / 1000)" "Fin (1 / 10)"]
  show ?thesis
    using scenario_well_shaped none
    by (simp add: titles_def scenario_run_low)
qed

section \<open>The claims about loadMatrices\<close>






end
